theory Spec2Isabelle
  imports Complex_Main "HOL-Library.Sublist" "HOL-Library.List_Lexorder" "HOL-Library.Char_ord"
    "HOL-Library.AList"
begin

section \<open>The program \<^verbatim>\<open>src/main.py\<close>\<close>

text \<open>
  Python integers are unbounded, so they are modelled as \<^typ>\<open>int\<close>; a Python list of
  integers is an \<^typ>\<open>int list\<close>. A Python \<^verbatim>\<open>str\<close> is modelled as a \<^typ>\<open>string\<close> holding
  its UTF-8 bytes, so \<^verbatim>\<open>.encode("utf-8")\<close> is the identity.

  The one exception the program's own computation can meet is the \<^verbatim>\<open>ValueError\<close> of
  converting a very long integer to text (see \<open>str_int\<close> below). A function that can raise
  returns a sum, \<open>Inl\<close> the exception.
\<close>

datatype py_error = ValueError

subsection \<open>\<^verbatim>\<open>fib\<close> (lines 25-32)\<close>

text \<open>
  \<^verbatim>\<open>
  def fib(n):
      seq = []
      a, b = 0, 1
      for _ in range(max(0, n)):
          seq.append(a)
          a, b = b, a + b
      return seq
  \<close>
  The loop state is the triple \<open>(seq, a, b)\<close>. The \<^verbatim>\<open>for\<close> loop runs over
  \<^verbatim>\<open>range(max(0, n))\<close>, a fixed number of iterations known before the loop starts, so it
  is a structural recursion on that number.
\<close>

fun fib_loop :: "nat \<Rightarrow> int list \<times> int \<times> int \<Rightarrow> int list \<times> int \<times> int" where
  "fib_loop 0 s = s"
| "fib_loop (Suc k) (seq, a, b) = fib_loop k (seq @ [a], b, a + b)"

definition fib :: "int \<Rightarrow> int list" where
  "fib n = fst (fib_loop (nat (max 0 n)) ([], 0, 1))"

subsection \<open>\<^verbatim>\<open>is_prime\<close> (lines 35-46)\<close>

text \<open>
  \<^verbatim>\<open>
  def is_prime(n):
      if n < 2:
          return False
      if n % 2 == 0:
          return n == 2
      d = 3
      while d * d <= n:
          if n % d == 0:
              return False
          d += 2
      return True
  \<close>
  The \<^verbatim>\<open>while\<close> loop has no bound written into it, so it is a partial function into
  \<open>option\<close>: \<open>None\<close> is the loop that never exits. Python's \<^verbatim>\<open>%\<close> on integers takes
  the sign of the divisor, as \<open>mod\<close> on \<^typ>\<open>int\<close> does; the divisors here are \<open>2\<close> and
  the positive \<open>d\<close>.
\<close>

partial_function (option) is_prime_loop :: "int \<Rightarrow> int \<Rightarrow> bool option" where
  "is_prime_loop n d =
     (if d * d \<le> n
      then (if n mod d = 0 then Some False else is_prime_loop n (d + 2))
      else Some True)"

declare is_prime_loop.simps [code]

definition is_prime :: "int \<Rightarrow> bool option" where
  "is_prime n =
     (if n < 2 then Some False
      else if n mod 2 = 0 then Some (n = 2)
      else is_prime_loop n 3)"

subsection \<open>What the program takes from the standard library and the host\<close>

text \<open>
  The program calls \<^verbatim>\<open>random.Random\<close>, \<^verbatim>\<open>hashlib.sha256\<close>, \<^verbatim>\<open>json.dumps\<close>, \<^verbatim>\<open>round\<close>,
  \<^verbatim>\<open>platform\<close>, \<^verbatim>\<open>os\<close> and \<^verbatim>\<open>datetime\<close>. None of them is code of this repository. The
  generator, the hash and the two leaf encoders of \<^verbatim>\<open>json\<close> (a float's \<^verbatim>\<open>repr\<close> and the
  escaping of a string) are parameters of the model, collected in a record; \<open>'g\<close> is the type
  of a generator's internal state. A method of the generator mutates that state, so it takes
  the state and returns the drawn value with the new state. The last field is the
  interpreter's setting \<^verbatim>\<open>sys.get_int_max_str_digits()\<close>: the longest integer, in decimal
  digits, that the interpreter converts to text; \<open>4300\<close> by default, \<open>0\<close> when the limit is
  switched off (and for an interpreter that has no such limit).

  A Python \<^verbatim>\<open>float\<close> is a binary fraction and so a rational number; the draw of
  \<^verbatim>\<open>rng.random()\<close> is carried as that rational. The only float the program keeps is
  \<^verbatim>\<open>round(rng.random(), 6)\<close>, the float nearest to a decimal of six places, and the
  program does nothing with it but print it (a float prints as the shortest decimal that
  identifies it, which is that decimal): it is carried as the decimal.
\<close>

datatype py_value = PyInt int | PyFloat rat | PyStr string

type_synonym py_dict = "(string \<times> py_value) list"

record 'g library =
  Random_seeded :: "int \<Rightarrow> 'g"
  randint :: "'g \<Rightarrow> int \<Rightarrow> int \<Rightarrow> int \<times> 'g"
  rng_random :: "'g \<Rightarrow> rat \<times> 'g"
  choice :: "'g \<Rightarrow> string list \<Rightarrow> string \<times> 'g"
  sha256_hexdigest :: "string \<Rightarrow> string"
  float_repr :: "rat \<Rightarrow> string"
  json_string :: "string \<Rightarrow> string"
  int_max_str_digits :: nat

text \<open>
  What a run reads from the machine it runs on: the state \<^verbatim>\<open>random.Random(None)\<close> seeds
  itself to from the operating system's entropy, the first word of \<^verbatim>\<open>sys.version\<close>,
  \<^verbatim>\<open>platform.platform()\<close>, \<^verbatim>\<open>os.getcwd()\<close>, and the clock, read more than once in a run
  (\<open>datetime_now h k\<close> is the \<open>k\<close>-th reading, already formatted by
  \<^verbatim>\<open>isoformat(timespec="seconds")\<close>).
\<close>

record 'g host =
  Random_unseeded :: 'g
  sys_version_word :: string
  platform_platform :: string
  os_getcwd :: string
  datetime_now :: "nat \<Rightarrow> string"

text \<open>
  The documented contract of the library calls: \<^verbatim>\<open>randint(a, b)\<close> returns an integer
  \<open>N\<close> with \<open>a \<le> N \<le> b\<close>; \<^verbatim>\<open>random()\<close> returns a float in \<open>[0.0, 1.0)\<close>; \<^verbatim>\<open>choice(seq)\<close>
  returns an element of the non-empty \<^verbatim>\<open>seq\<close>; \<^verbatim>\<open>hexdigest()\<close> of SHA-256 is 64 lower-case
  hexadecimal digits.
\<close>

definition hex_digit :: "char \<Rightarrow> bool" where
  "hex_digit c = (c \<in> set ''0123456789abcdef'')"

definition library_contract :: "'g library \<Rightarrow> bool" where
  "library_contract lib =
     ((\<forall>g a b. a \<le> b \<longrightarrow> a \<le> fst (randint lib g a b) \<and> fst (randint lib g a b) \<le> b)
      \<and> (\<forall>g. 0 \<le> fst (rng_random lib g) \<and> fst (rng_random lib g) < 1)
      \<and> (\<forall>g xs. xs \<noteq> [] \<longrightarrow> fst (choice lib g xs) \<in> set xs)
      \<and> (\<forall>bs. length (sha256_hexdigest lib bs) = 64
             \<and> list_all hex_digit (sha256_hexdigest lib bs)))"

subsection \<open>Built-ins: \<^verbatim>\<open>round\<close>, \<^verbatim>\<open>str\<close>, \<^verbatim>\<open>str.join\<close>, \<^verbatim>\<open>json.dumps\<close>\<close>

text \<open>
  \<^verbatim>\<open>round(x, ndigits)\<close> on a float rounds the exact value of \<open>x\<close> to \<open>ndigits\<close> decimal
  places, a tie going to the even last digit, and returns the float nearest to that decimal.
  The model keeps the decimal itself.
\<close>

definition round_half_even :: "rat \<Rightarrow> int" where
  "round_half_even y =
     (let f = \<lfloor>y\<rfloor>; r = y - of_int f
      in if r < 1 / 2 then f
         else if 1 / 2 < r then f + 1
         else if even f then f else f + 1)"

definition py_round :: "rat \<Rightarrow> nat \<Rightarrow> rat" where
  "py_round x ndigits = of_int (round_half_even (x * 10 ^ ndigits)) / 10 ^ ndigits"

fun str_nat :: "nat \<Rightarrow> string" where
  "str_nat n =
     (if n < 10 then [''0123456789'' ! n]
      else str_nat (n div 10) @ [''0123456789'' ! (n mod 10)])"

declare str_nat.simps [simp del]

text \<open>The decimal numeral of an integer, with its sign.\<close>

definition decimal :: "int \<Rightarrow> string" where
  "decimal i = (if i < 0 then ''-'' @ str_nat (nat (- i)) else str_nat (nat i))"

text \<open>
  \<^verbatim>\<open>str(i)\<close>, \<^verbatim>\<open>repr(i)\<close> and the formatting of an integer in an f-string. CPython (3.11 and
  later, and the security releases of 3.7 to 3.10) raises \<^verbatim>\<open>ValueError\<close> instead of
  returning the numeral when the limit is on, the text is longer than 640 characters and
  it has more digits, the sign not counted, than the limit (the check at the end of
  \<^verbatim>\<open>long_to_decimal_string_internal\<close>; a limit between 1 and 639 cannot be set). The first
  argument is the limit.
\<close>

definition str_int :: "nat \<Rightarrow> int \<Rightarrow> py_error + string" where
  "str_int max_str_digits i =
     (let s = decimal i; strlen_nosign = length s - (if i < 0 then 1 else 0)
      in if 0 < max_str_digits \<and> 640 < length s \<and> max_str_digits < strlen_nosign
         then Inl ValueError
         else Inr s)"

fun join :: "string \<Rightarrow> string list \<Rightarrow> string" where
  "join sep [] = []"
| "join sep [x] = x"
| "join sep (x # y # ys) = x @ sep @ join sep (y # ys)"

text \<open>
  \<^verbatim>\<open>str\<close> of a list of integers, as an f-string formats it: the elements are converted in
  order, and the first that cannot be converted ends the conversion.
\<close>

fun str_ints :: "nat \<Rightarrow> int list \<Rightarrow> py_error + string list" where
  "str_ints maxd [] = Inr []"
| "str_ints maxd (x # xs) =
     (case str_int maxd x of
        Inl e \<Rightarrow> Inl e
      | Inr s \<Rightarrow> (case str_ints maxd xs of Inl e \<Rightarrow> Inl e | Inr ss \<Rightarrow> Inr (s # ss)))"

definition str_int_list :: "nat \<Rightarrow> int list \<Rightarrow> py_error + string" where
  "str_int_list maxd xs =
     (case str_ints maxd xs of
        Inl e \<Rightarrow> Inl e
      | Inr ss \<Rightarrow> Inr (''['' @ join '', '' ss @ '']''))"

text \<open>
  \<^verbatim>\<open>json.dumps(d, sort_keys=..., indent=...)\<close> on a flat dictionary with string keys. A
  dictionary keeps its keys in insertion order, so it is an association list. With
  \<^verbatim>\<open>sort_keys\<close> the items are sorted by key (strings compare lexicographically by
  character); with no \<^verbatim>\<open>indent\<close> the separators are \<^verbatim>\<open>", "\<close> and \<^verbatim>\<open>": "\<close>; with an
  \<^verbatim>\<open>indent\<close> each item stands on a line of its own. An integer is written by its
  \<^verbatim>\<open>repr\<close>, so \<^verbatim>\<open>json.dumps\<close> raises where that does.
\<close>

definition json_value :: "'g library \<Rightarrow> py_value \<Rightarrow> py_error + string" where
  "json_value lib v =
     (case v of
        PyInt i \<Rightarrow> str_int (int_max_str_digits lib) i
      | PyFloat f \<Rightarrow> Inr (float_repr lib f)
      | PyStr s \<Rightarrow> Inr (json_string lib s))"

fun json_items :: "'g library \<Rightarrow> py_dict \<Rightarrow> py_error + string list" where
  "json_items lib [] = Inr []"
| "json_items lib ((k, v) # kvs) =
     (case json_value lib v of
        Inl e \<Rightarrow> Inl e
      | Inr s \<Rightarrow>
          (case json_items lib kvs of
             Inl e \<Rightarrow> Inl e
           | Inr parts \<Rightarrow> Inr ((json_string lib k @ '': '' @ s) # parts)))"

definition json_dumps ::
  "'g library \<Rightarrow> py_dict \<Rightarrow> bool \<Rightarrow> nat option \<Rightarrow> py_error + string" where
  "json_dumps lib d sort_keys indent =
     (let items = (if sort_keys then sort_key fst d else d)
      in case json_items lib items of
           Inl e \<Rightarrow> Inl e
         | Inr parts \<Rightarrow>
             Inr (if parts = [] then ''{}''
                  else (case indent of
                          None \<Rightarrow> ''{'' @ join '', '' parts @ ''}''
                        | Some n \<Rightarrow>
                            ''{'' @ [CHR 0x0A] @ replicate n CHR '' ''
                            @ join ('','' @ [CHR 0x0A] @ replicate n CHR '' '') parts
                            @ [CHR 0x0A] @ ''}'')))"

subsection \<open>\<^verbatim>\<open>random_payload\<close> (lines 49-62)\<close>

text \<open>
  \<^verbatim>\<open>
  def random_payload(seed=None):
      rng = random.Random(seed)
      data = {
          "int": rng.randint(1, 100),
          "float": round(rng.random(), 6),
          "choice": rng.choice(["apple", "banana", "cherry", "durian"]),
      }
      raw = json.dumps(data, sort_keys=True).encode("utf-8")
      data["sha256"] = hashlib.sha256(raw).hexdigest()[:16]
      return data
  \<close>
  The entries of the dictionary display are evaluated in the order written. The assignment
  to \<^verbatim>\<open>data["sha256"]\<close> replaces the value of an existing key or appends a new one, which
  is \<^const>\<open>AList.update\<close>.
\<close>

definition random_payload ::
  "'g library \<Rightarrow> 'g host \<Rightarrow> int option \<Rightarrow> py_error + py_dict" where
  "random_payload lib h seed =
     (let rng0 = (case seed of None \<Rightarrow> Random_unseeded h | Some s \<Rightarrow> Random_seeded lib s);
          (i, rng1) = randint lib rng0 1 100;
          (x, rng2) = rng_random lib rng1;
          (c, rng3) = choice lib rng2 [''apple'', ''banana'', ''cherry'', ''durian''];
          data = [(''int'', PyInt i), (''float'', PyFloat (py_round x 6)), (''choice'', PyStr c)]
      in case json_dumps lib data True None of
           Inl e \<Rightarrow> Inl e
         | Inr raw \<Rightarrow>
             Inr (AList.update ''sha256'' (PyStr (take 16 (sha256_hexdigest lib raw))) data))"

subsection \<open>\<^verbatim>\<open>env_info\<close> (lines 15-22) and \<^verbatim>\<open>main\<close> (lines 65-99)\<close>

text \<open>
  \<^verbatim>\<open>env_info\<close> returns a dictionary with the four fixed keys \<^verbatim>\<open>python\<close>, \<^verbatim>\<open>platform\<close>,
  \<^verbatim>\<open>cwd\<close> and \<^verbatim>\<open>time\<close>, a record here. Its second argument says which reading of the clock
  the call makes.
\<close>

record env =
  python :: string
  platform :: string
  cwd :: string
  time :: string

definition env_info :: "'g host \<Rightarrow> nat \<Rightarrow> env" where
  "env_info h k =
     \<lparr>python = sys_version_word h, platform = platform_platform h, cwd = os_getcwd h,
      time = datetime_now h k\<rparr>"

text \<open>
  The parsed command line (\<^verbatim>\<open>args = parser.parse_args(argv)\<close>, lines 66-76): \<^verbatim>\<open>argparse\<close>
  either exits the process or returns these three values, \<^verbatim>\<open>seed\<close> being \<^verbatim>\<open>None\<close> when
  the option is absent.
\<close>

record args =
  name :: string
  seed :: "int option"
  count :: int

text \<open>
  The list comprehension \<^verbatim>\<open>[n for n in seq if is_prime(n)]\<close> (line 94) calls \<^verbatim>\<open>is_prime\<close>
  on each element in order; it returns only if every call does.
\<close>

fun filter_is_prime :: "int list \<Rightarrow> int list option" where
  "filter_is_prime [] = Some []"
| "filter_is_prime (n # ns) =
     (case is_prime n of
        None \<Rightarrow> None
      | Some b \<Rightarrow>
          (case filter_is_prime ns of
             None \<Rightarrow> None
           | Some primes \<Rightarrow> Some (if b then n # primes else primes)))"

text \<open>
  Lines 92-94 of \<^verbatim>\<open>main\<close>, the three values the specification calls the Sequence Analyzer's
  report:
  \<^verbatim>\<open>
      seq = fib(args.count)
      ssum = sum(seq)
      primes = [n for n in seq if is_prime(n)]
  \<close>
\<close>

definition sequence_analysis :: "int \<Rightarrow> (int list \<times> int \<times> int list) option" where
  "sequence_analysis cnt =
     (let seq = fib cnt; ssum = sum_list seq
      in case filter_is_prime seq of
           None \<Rightarrow> None
         | Some primes \<Rightarrow> Some (seq, ssum, primes))"

text \<open>
  \<^verbatim>\<open>main\<close> prints twelve times and returns \<open>0\<close>. Standard output is the list of the strings
  printed, one for each call of \<^verbatim>\<open>print\<close>. A run ends in one of three ways: it never
  comes to an end (\<open>None\<close>), an exception leaves \<^verbatim>\<open>main\<close> (\<open>Some (Inl e)\<close>), or \<^verbatim>\<open>main\<close>
  returns (\<open>Some (Inr (out, code))\<close>, with all that was printed). The statements run in the
  order of the source: the payload is built and printed before the sequence is computed,
  and an f-string converts its fields from left to right. The greeting ends in the
  character U+1F44B, four bytes in UTF-8. What the host's standard output does with the
  text (its encoding, a closed stream) is not part of the model.
\<close>

definition main ::
  "'g library \<Rightarrow> 'g host \<Rightarrow> args \<Rightarrow> (py_error + string list \<times> int) option" where
  "main lib h a =
     (let maxd = int_max_str_digits lib;
          out1 = [replicate 64 CHR ''='',
                  ''GitHub test run at '' @ datetime_now h 0,
                  replicate 64 CHR ''=''];
          info = env_info h 1;
          out2 = out1 @
                 [''Hello, '' @ name a @ '' '' @ [CHR 0xF0, CHR 0x9F, CHR 0x91, CHR 0x8B],
                  ''- Python:   '' @ python info,
                  ''- Platform: '' @ platform info,
                  ''- CWD:      '' @ cwd info]
      in case random_payload lib h (seed a) of
           Inl e \<Rightarrow> Some (Inl e)
         | Inr payload \<Rightarrow>
      (case json_dumps lib payload False (Some 2) of
           Inl e \<Rightarrow> Some (Inl e)
         | Inr payload_text \<Rightarrow>
      (case sequence_analysis (count a) of
           None \<Rightarrow> None
         | Some (seq, ssum, primes) \<Rightarrow>
      (case str_int maxd (count a) of
           Inl e \<Rightarrow> Some (Inl e)
         | Inr count_text \<Rightarrow>
      (case str_int_list maxd seq of
           Inl e \<Rightarrow> Some (Inl e)
         | Inr seq_text \<Rightarrow>
      (case str_int maxd ssum of
           Inl e \<Rightarrow> Some (Inl e)
         | Inr ssum_text \<Rightarrow>
      (case str_int_list maxd primes of
           Inl e \<Rightarrow> Some (Inl e)
         | Inr primes_text \<Rightarrow>
             Some (Inr (out2 @
                   [[CHR 0x0A] @ ''Random payload:'',
                    payload_text,
                    [CHR 0x0A] @ ''Fibonacci('' @ count_text @ '') = '' @ seq_text,
                    ''Sum = '' @ ssum_text @ '' | Primes in sequence = '' @ primes_text,
                    [CHR 0x0A] @ ''Done. Commit this change to test your GitHub setup.''],
                   0)))))))))"

subsection \<open>The checksum as the specification words it\<close>

text \<open>
  The specification's checksum: ``serialize {intValue, floatValue, choiceValue} as a
  canonical form with keys sorted lexicographically, encode as UTF-8 bytes, compute SHA-256,
  take the first 16 hex characters''. Of the keys \<^verbatim>\<open>int\<close>, \<^verbatim>\<open>float\<close> and \<^verbatim>\<open>choice\<close>, the
  sorted order is \<^verbatim>\<open>choice\<close>, \<^verbatim>\<open>float\<close>, \<^verbatim>\<open>int\<close>. These two definitions are written from those
  words, not from the code; \<^const>\<open>random_payload\<close> is compared with them.
\<close>

definition canonical_serialization :: "'g library \<Rightarrow> int \<Rightarrow> rat \<Rightarrow> string \<Rightarrow> string" where
  "canonical_serialization lib i f c =
     ''{'' @ json_string lib ''choice'' @ '': '' @ json_string lib c
     @ '', '' @ json_string lib ''float'' @ '': '' @ float_repr lib f
     @ '', '' @ json_string lib ''int'' @ '': '' @ decimal i @ ''}''"

definition recomputed_checksum :: "'g library \<Rightarrow> py_dict \<Rightarrow> string option" where
  "recomputed_checksum lib p =
     (case (map_of p ''int'', map_of p ''float'', map_of p ''choice'') of
        (Some (PyInt i), Some (PyFloat f), Some (PyStr c)) \<Rightarrow>
          Some (take 16 (sha256_hexdigest lib (canonical_serialization lib i f c)))
      | _ \<Rightarrow> None)"

subsection \<open>The payload as the specification words it, and as the code builds it\<close>

text \<open>
  The specification's Payload: ``intValue: integer in [1,100], floatValue: decimal rounded to
  6 fractional digits in [0,1), choiceValue: one of a fixed 4-element category set, checksum:
  16-character hexadecimal string''. \<^const>\<open>True\<close> for the first argument asks for the
  half-open interval of those words, \<^const>\<open>False\<close> lets the float be \<open>1\<close> as well.
\<close>

definition six_decimals :: "rat \<Rightarrow> bool" where
  "six_decimals f = (of_int \<lfloor>f * 10 ^ 6\<rfloor> = f * 10 ^ 6)"

definition payload_fields :: "bool \<Rightarrow> py_dict \<Rightarrow> bool" where
  "payload_fields half_open p =
     (case p of
        [(k1, PyInt i), (k2, PyFloat f), (k3, PyStr c), (k4, PyStr s)] \<Rightarrow>
          k1 = ''int'' \<and> k2 = ''float'' \<and> k3 = ''choice'' \<and> k4 = ''sha256''
          \<and> 1 \<le> i \<and> i \<le> 100
          \<and> six_decimals f \<and> 0 \<le> f \<and> (if half_open then f < 1 else f \<le> 1)
          \<and> c \<in> set [''apple'', ''banana'', ''cherry'', ''durian'']
          \<and> length s = 16 \<and> list_all hex_digit s
      | _ \<Rightarrow> False)"

subsection \<open>A small library and host to run the model on\<close>

text \<open>
  A generator whose state is a rational number: seeding with \<open>s\<close> sets it to \<open>s / 2^53\<close>,
  \<^verbatim>\<open>random()\<close> returns its fractional part, \<^verbatim>\<open>randint\<close> the lower bound and \<^verbatim>\<open>choice\<close>
  the first element; the hash is constant, a float is printed with six fractional digits
  and a string is quoted without escapes; the digit limit is the default \<open>4300\<close>. It keeps
  \<^const>\<open>library_contract\<close>.
\<close>

definition sample_library :: "rat library" where
  "sample_library =
     \<lparr>Random_seeded = (\<lambda>s. of_int s / 2 ^ 53),
      randint = (\<lambda>g a b. (a, g)),
      rng_random = (\<lambda>g. (frac g, g)),
      choice = (\<lambda>g xs. (hd xs, g)),
      sha256_hexdigest = (\<lambda>bs. replicate 64 CHR ''0''),
      float_repr =
        (\<lambda>f. let ds = decimal \<lfloor>frac f * 10 ^ 6\<rfloor>
             in decimal \<lfloor>f\<rfloor> @ ''.'' @ replicate (6 - length ds) CHR ''0'' @ ds),
      json_string = (\<lambda>s. [CHR 0x22] @ s @ [CHR 0x22]),
      int_max_str_digits = 4300\<rparr>"

definition sample_host :: "rat host" where
  "sample_host =
     \<lparr>Random_unseeded = 1 / 4,
      sys_version_word = ''3.12.0'',
      platform_platform = ''Linux'',
      os_getcwd = ''/tmp'',
      datetime_now = (\<lambda>k. ''2024-01-01T00:00:00'')\<rparr>"

subsection \<open>The number of decimal digits of an integer\<close>

text \<open>
  The digit limit is worded in decimal digits, the sign not counted. This is that count,
  used to say which integers the interpreter converts.
\<close>

definition ndigits :: "int \<Rightarrow> nat" where
  "ndigits i = length (str_nat (nat \<bar>i\<bar>))"

subsection \<open>The Fibonacci numbers of the specification\<close>

text \<open>
  The specification speaks of ``the first \<open>n\<close> Fibonacci numbers starting
  0, 1, 1, 2, 3, 5, ...''. This is the textbook recurrence, written from those words and not
  from the code; \<^const>\<open>fib\<close> is compared with it.
\<close>

fun fibonacci_number :: "nat \<Rightarrow> int" where
  "fibonacci_number 0 = 0"
| "fibonacci_number (Suc 0) = 1"
| "fibonacci_number (Suc (Suc k)) = fibonacci_number k + fibonacci_number (Suc k)"


section \<open>Properties of \<^verbatim>\<open>fib\<close>\<close>

text \<open>
  Loop invariant: when the loop starts with \<open>a\<close> and \<open>b\<close> the Fibonacci numbers of index
  \<open>i\<close> and \<open>i + 1\<close>, then \<open>k\<close> iterations append the numbers of index \<open>i, ..., i + k - 1\<close>
  and leave the next two in \<open>a\<close> and \<open>b\<close>.
\<close>

lemma fib_loop_invariant:
  "fib_loop k (seq, fibonacci_number i, fibonacci_number (Suc i)) =
     (seq @ map fibonacci_number [i..<i + k],
      fibonacci_number (i + k), fibonacci_number (Suc (i + k)))"
proof (induction k arbitrary: seq i)
  case 0
  then show ?case by simp
next
  case (Suc k)
  have "fib_loop (Suc k) (seq, fibonacci_number i, fibonacci_number (Suc i)) =
        fib_loop k (seq @ [fibonacci_number i], fibonacci_number (Suc i),
          fibonacci_number (Suc (Suc i)))"
    by (simp add: add.commute)
  also have "\<dots> = ((seq @ [fibonacci_number i]) @ map fibonacci_number [Suc i..<Suc i + k],
        fibonacci_number (Suc i + k), fibonacci_number (Suc (Suc i + k)))"
    by (rule Suc.IH)
  finally show ?case
    by (simp add: upt_conv_Cons del: upt_Suc)
qed

lemma fib_eq_map: "fib n = map fibonacci_number [0..<nat n]"
  using fib_loop_invariant[of "nat (max 0 n)" "[]" 0]
  by (simp add: fib_def max_def)

lemma length_fib: "length (fib n) = nat n"
  by (simp add: fib_eq_map)

lemma fib_nonpos: "n \<le> 0 \<Longrightarrow> fib n = []"
  by (simp add: fib_eq_map)

lemma fib_append:
  assumes "n \<le> m"
  shows "fib m = fib n @ map fibonacci_number [nat n..<nat m]"
proof -
  have "nat n \<le> nat m" using assms by simp
  then have "[0..<nat m] = [0..<nat n] @ [nat n..<nat m]"
    by (metis le_add_diff_inverse upt_add_eq_append zero_le)
  then show ?thesis by (simp add: fib_eq_map)
qed

lemma sum_fibonacci_number:
  "sum_list (map fibonacci_number [0..<k]) + 1 = fibonacci_number (Suc k)"
  by (induction k) simp_all

text \<open>
  \<^bold>\<open>C4.\<close> For every integer \<open>n \<ge> 0\<close>, \<^verbatim>\<open>fib(n)\<close> is a list of length exactly \<open>n\<close> that holds
  the first \<open>n\<close> Fibonacci numbers 0, 1, 1, 2, 3, 5, ... in order; \<^verbatim>\<open>fib(0) = []\<close>,
  \<^verbatim>\<open>fib(1) = [0]\<close>, \<^verbatim>\<open>fib(5) = [0, 1, 1, 2, 3]\<close>; and for every negative \<open>n\<close> the result
  is the empty list, the same as for \<open>n = 0\<close>.
\<close>

theorem fib_first_n:
  "(0 \<le> n \<longrightarrow> int (length (fib n)) = n \<and> fib n = map fibonacci_number [0..<nat n])
   \<and> fib 0 = [] \<and> fib 1 = [0] \<and> fib 5 = [0, 1, 1, 2, 3]
   \<and> (n < 0 \<longrightarrow> fib n = [] \<and> fib n = fib 0)"
proof -
  have "fib 0 = []" by (simp add: fib_def)
  moreover have "fib 1 = [0]" by (simp add: fib_def)
  moreover have "fib 5 = [0, 1, 1, 2, 3]" by (simp add: fib_def eval_nat_numeral)
  moreover have "0 \<le> n \<longrightarrow> int (length (fib n)) = n" by (simp add: length_fib)
  moreover have "n < 0 \<longrightarrow> fib n = []" by (simp add: fib_nonpos)
  moreover note fib_eq_map[of n]
  ultimately show ?thesis by simp
qed

theorem fib_first_n_witness:
  "(0::int) \<le> 7 \<and> int (length (fib 7)) = 7 \<and> fib 7 = [0, 1, 1, 2, 3, 5, 8]
   \<and> (- 3::int) < 0 \<and> fib (- 3) = [] \<and> fib (- 3) = fib 0"
  using fib_first_n[of 7] fib_first_n[of "- 3"]
  by (simp add: eval_nat_numeral)

text \<open>
  \<^bold>\<open>C9.\<close> For all integers \<open>n\<close> and \<open>m\<close> with \<open>0 \<le> n \<le> m\<close>, \<^verbatim>\<open>fib(n)\<close> is a prefix of
  \<^verbatim>\<open>fib(m)\<close>: a larger count only appends elements and leaves the first \<open>n\<close> as they are.
\<close>

theorem fib_prefix:
  "0 \<le> n \<Longrightarrow> n \<le> m \<Longrightarrow> prefix (fib n) (fib m) \<and> take (nat n) (fib m) = fib n"
proof -
  assume "0 \<le> n" and nm: "n \<le> m"
  have app: "fib m = fib n @ map fibonacci_number [nat n..<nat m]"
    using nm by (rule fib_append)
  have "prefix (fib n) (fib m)"
    unfolding app by (rule prefixI) simp
  moreover have "take (nat n) (fib m) = fib n"
    unfolding app by (simp add: length_fib)
  ultimately show ?thesis by simp
qed

theorem fib_prefix_witness:
  "(0::int) \<le> 3 \<and> (3::int) \<le> 6 \<and> prefix [0, 1, 1] (fib 6) \<and> take 3 (fib 6) = [0, 1, 1]"
proof -
  have three: "fib 3 = [0, 1, 1]" by (simp add: fib_def eval_nat_numeral)
  have "prefix (fib 3) (fib 6) \<and> take (nat 3) (fib 6) = fib 3"
    by (rule fib_prefix) simp_all
  then show ?thesis by (simp add: three)
qed

text \<open>
  \<^bold>\<open>C10.\<close> For every integer \<open>n \<ge> 0\<close>, the sum of the elements of \<^verbatim>\<open>fib(n)\<close> plus one is
  the last element of \<^verbatim>\<open>fib(n + 2)\<close>: the sum that \<^verbatim>\<open>main\<close> prints (\<^verbatim>\<open>sum(seq)\<close>, line 93)
  is the Fibonacci number two places further on, less one.
\<close>

theorem fib_sum_identity:
  "0 \<le> n \<Longrightarrow> sum_list (fib n) + 1 = last (fib (n + 2))"
proof -
  assume n: "0 \<le> n"
  have "nat (n + 2) = Suc (Suc (nat n))" using n by simp
  then have "last (fib (n + 2)) = fibonacci_number (Suc (nat n))"
    by (simp add: fib_eq_map)
  then show ?thesis
    by (simp add: fib_eq_map sum_fibonacci_number)
qed

theorem fib_sum_identity_witness:
  "(0::int) \<le> 5 \<and> sum_list (fib 5) + 1 = last (fib 7) \<and> sum_list (fib 5) = 7"
proof -
  have "sum_list (fib 5) + 1 = last (fib (5 + 2))"
    by (rule fib_sum_identity) simp
  moreover have "sum_list (fib 5) = 7" by (simp add: fib_def eval_nat_numeral)
  ultimately show ?thesis by simp
qed

section \<open>Properties of \<^verbatim>\<open>is_prime\<close>\<close>

text \<open>
  For a non-negative integer \<open>d\<close>, being at most \<open>floor (sqrt n)\<close> is the loop's test
  \<open>d * d \<le> n\<close>.
\<close>

lemma le_floor_sqrt_iff:
  fixes d n :: int
  assumes "0 \<le> d"
  shows "d \<le> \<lfloor>sqrt (of_int n)\<rfloor> \<longleftrightarrow> d * d \<le> n"
proof -
  have "d \<le> \<lfloor>sqrt (of_int n)\<rfloor> \<longleftrightarrow> (of_int d :: real) \<le> sqrt (of_int n)"
    by (simp add: le_floor_iff)
  also have "\<dots> \<longleftrightarrow> sqrt ((of_int d)\<^sup>2) \<le> sqrt (of_int n :: real)"
    using assms by simp
  also have "\<dots> \<longleftrightarrow> ((of_int d)\<^sup>2 :: real) \<le> of_int n"
    by (rule real_sqrt_le_iff)
  also have "\<dots> \<longleftrightarrow> (of_int (d * d) :: real) \<le> of_int n"
    by (simp add: power2_eq_square)
  also have "\<dots> \<longleftrightarrow> d * d \<le> n"
    by (rule of_int_le_iff)
  finally show ?thesis .
qed

text \<open>
  What the loop returns from any positive \<open>d\<close>: it exits, and it answers whether none of
  \<open>d, d + 2, d + 4, ...\<close> with square at most \<open>n\<close> divides \<open>n\<close>. The induction is on the
  distance from \<open>d\<close> to \<open>n + 1\<close>, which each iteration shortens.
\<close>

lemma is_prime_loop_eq:
  "0 < d \<Longrightarrow>
   is_prime_loop n d =
     Some (\<not> (\<exists>j::nat. (d + 2 * int j) * (d + 2 * int j) \<le> n \<and> n mod (d + 2 * int j) = 0))"
proof (induction "nat (n + 1 - d)" arbitrary: d rule: less_induct)
  case less
  let ?P = "\<lambda>e. e * e \<le> n \<and> n mod e = 0"
  show ?case
  proof (cases "d * d \<le> n")
    case False
    have "\<not> ?P (d + 2 * int j)" for j
    proof -
      have "d * d \<le> (d + 2 * int j) * (d + 2 * int j)"
        using less.prems by (intro mult_mono) auto
      with False show ?thesis by linarith
    qed
    with False show ?thesis
      by (subst is_prime_loop.simps) simp
  next
    case True
    show ?thesis
    proof (cases "n mod d = 0")
      case dv: True
      with True have "?P (d + 2 * int 0)" by simp
      then have "\<exists>j::nat. ?P (d + 2 * int j)" by (rule exI[of _ 0])
      with True dv show ?thesis
        by (subst is_prime_loop.simps) simp
    next
      case ndv: False
      have "d \<le> d * d" using less.prems by (simp add: mult_le_cancel_left1) 
      with True have "d \<le> n" by linarith
      then have m: "nat (n + 1 - (d + 2)) < nat (n + 1 - d)" by linarith
      have pos: "0 < d + 2" using less.prems by simp
      have ih: "is_prime_loop n (d + 2) =
          Some (\<not> (\<exists>j::nat. ?P (d + 2 + 2 * int j)))"
        using less.hyps[OF m pos] .
      have "(\<exists>j::nat. ?P (d + 2 * int j)) \<longleftrightarrow> (\<exists>j::nat. ?P (d + 2 + 2 * int j))"
      proof
        assume "\<exists>j::nat. ?P (d + 2 * int j)"
        then obtain j where j: "?P (d + 2 * int j)" by (elim exE)
        with ndv have "j \<noteq> 0" by (cases j) auto
        then obtain i where "j = Suc i" by (cases j) auto
        with j have "?P (d + 2 + 2 * int i)" by (simp add: add.assoc)
        then show "\<exists>j::nat. ?P (d + 2 + 2 * int j)" by (rule exI)
      next
        assume "\<exists>j::nat. ?P (d + 2 + 2 * int j)"
        then obtain i where "?P (d + 2 + 2 * int i)" by (elim exE)
        then have "?P (d + 2 * int (Suc i))" by (simp add: add.assoc)
        then show "\<exists>j::nat. ?P (d + 2 * int j)" by (rule exI)
      qed
      then have eq: "(\<not> (\<exists>j::nat. ?P (d + 2 * int j))) = (\<not> (\<exists>j::nat. ?P (d + 2 + 2 * int j)))"
        by (rule arg_cong)
      have step: "is_prime_loop n d = is_prime_loop n (d + 2)"
        using True ndv by (subst is_prime_loop.simps) simp
      show ?thesis
        unfolding step ih eq ..
    qed
  qed
qed

lemma odd_from_3:
  fixes e :: int
  shows "(\<exists>j::nat. e = 3 + 2 * int j) \<longleftrightarrow> 3 \<le> e \<and> odd e"
proof
  assume "\<exists>j::nat. e = 3 + 2 * int j"
  then show "3 \<le> e \<and> odd e" by auto
next
  assume a: "3 \<le> e \<and> odd e"
  then obtain k where k: "e = 2 * k + 1" by (auto elim: oddE)
  with a have "1 \<le> k" by linarith
  then have "e = 3 + 2 * int (nat (k - 1))" using k by simp
  then show "\<exists>j::nat. e = 3 + 2 * int j" by blast
qed

lemma is_prime_odd:
  assumes "2 < n" "odd n"
  shows "is_prime n =
    Some (\<not> (\<exists>d. 3 \<le> d \<and> d \<le> \<lfloor>sqrt (of_int n)\<rfloor> \<and> odd d \<and> d dvd n))"
proof -
  let ?Q = "\<lambda>d. 3 \<le> d \<and> d \<le> \<lfloor>sqrt (of_int n)\<rfloor> \<and> odd d \<and> d dvd n"
  let ?P = "\<lambda>e. e * e \<le> n \<and> n mod e = 0"
  have loop: "is_prime n = Some (\<not> (\<exists>j::nat. ?P (3 + 2 * int j)))"
    using assms is_prime_loop_eq[of 3 n] by (simp add: is_prime_def odd_iff_mod_2_eq_one)
  have "(\<exists>j::nat. ?P (3 + 2 * int j)) \<longleftrightarrow> (\<exists>d. ?Q d)"
  proof
    assume "\<exists>j::nat. ?P (3 + 2 * int j)"
    then obtain j :: nat where j: "?P (3 + 2 * int j)" by (elim exE)
    have "3 + 2 * int j \<le> \<lfloor>sqrt (of_int n)\<rfloor>"
      using j le_floor_sqrt_iff[of "3 + 2 * int j" n] by simp
    with j have "?Q (3 + 2 * int j)" by (simp add: dvd_eq_mod_eq_0)
    then show "\<exists>d. ?Q d" by (rule exI)
  next
    assume "\<exists>d. ?Q d"
    then obtain d where d: "?Q d" by (elim exE)
    then have "3 \<le> d \<and> odd d" by simp
    then obtain j :: nat where e: "d = 3 + 2 * int j"
      using odd_from_3[of d] by (elim exE iffE impE) simp_all
    have "d * d \<le> n" using d le_floor_sqrt_iff[of d n] by simp
    with d have "?P d" by (simp add: dvd_eq_mod_eq_0)
    then have "?P (3 + 2 * int j)" unfolding e .
    then show "\<exists>j::nat. ?P (3 + 2 * int j)" by (rule exI)
  qed
  then show ?thesis unfolding loop by (rule arg_cong[of _ _ "\<lambda>b. Some (\<not> b)"])
qed

lemma is_prime_small: "n < 2 \<Longrightarrow> is_prime n = Some False"
  by (simp add: is_prime_def)

lemma is_prime_even: "2 < n \<Longrightarrow> even n \<Longrightarrow> is_prime n = Some False"
  by (simp add: is_prime_def even_iff_mod_2_eq_zero)

lemma is_prime_2: "is_prime 2 = Some True"
  by (simp add: is_prime_def)

lemma is_prime_returns: "\<exists>b. is_prime n = Some b"
proof (cases "n < 2 \<or> n mod 2 = 0")
  case True
  then show ?thesis by (auto simp: is_prime_def)
next
  case False
  then have "is_prime n = is_prime_loop n 3" by (simp add: is_prime_def)
  then show ?thesis using is_prime_loop_eq[of 3 n] by simp
qed

text \<open>
  \<^bold>\<open>C5.\<close> For every integer \<open>n\<close>, \<^verbatim>\<open>is_prime(n)\<close> returns false for \<open>n < 2\<close>, true for
  \<open>n = 2\<close>, false for every even \<open>n > 2\<close>, and for odd \<open>n > 2\<close> true exactly when no odd
  integer \<open>d\<close> with \<open>3 \<le> d \<le> floor (sqrt n)\<close> divides \<open>n\<close>; it is true for 2, 3, 5, 7, 11, 13
  and false for 4, 6, 8, 9, 10.
\<close>

theorem is_prime_trial_division:
  "(n < 2 \<longrightarrow> is_prime n = Some False)
   \<and> is_prime 2 = Some True
   \<and> (2 < n \<and> even n \<longrightarrow> is_prime n = Some False)
   \<and> (2 < n \<and> odd n \<longrightarrow>
        is_prime n =
          Some (\<not> (\<exists>d. 3 \<le> d \<and> d \<le> \<lfloor>sqrt (of_int n)\<rfloor> \<and> odd d \<and> d dvd n)))
   \<and> map is_prime [2, 3, 5, 7, 11, 13] = replicate 6 (Some True)
   \<and> map is_prime [4, 6, 8, 9, 10] = replicate 5 (Some False)"
proof -
  have "map is_prime [2, 3, 5, 7, 11, 13] = replicate 6 (Some True)"
    by (simp add: is_prime_def is_prime_loop.simps eval_nat_numeral)
  moreover have "map is_prime [4, 6, 8, 9, 10] = replicate 5 (Some False)"
    by (simp add: is_prime_def is_prime_loop.simps eval_nat_numeral)
  moreover have "2 < n \<and> odd n \<longrightarrow>
        is_prime n =
          Some (\<not> (\<exists>d. 3 \<le> d \<and> d \<le> \<lfloor>sqrt (of_int n)\<rfloor> \<and> odd d \<and> d dvd n))"
    using is_prime_odd[of n] by simp
  moreover have "2 < n \<and> even n \<longrightarrow> is_prime n = Some False"
    by (simp add: is_prime_even)
  moreover have "n < 2 \<longrightarrow> is_prime n = Some False"
    by (simp add: is_prime_small)
  moreover note is_prime_2
  ultimately show ?thesis by (intro conjI)
qed

theorem is_prime_trial_division_witness:
  "(1::int) < 2 \<and> is_prime 1 = Some False
   \<and> (2::int) < 10 \<and> even (10::int) \<and> is_prime 10 = Some False
   \<and> (2::int) < 15 \<and> odd (15::int)
   \<and> is_prime 15 =
        Some (\<not> (\<exists>d. 3 \<le> d \<and> d \<le> \<lfloor>sqrt (of_int 15)\<rfloor> \<and> odd d \<and> d dvd (15::int)))
   \<and> is_prime 15 = Some False"
proof -
  have "is_prime 15 = Some False"
    by (simp add: is_prime_def is_prime_loop.simps)
  then show ?thesis
    using is_prime_trial_division[of 1] is_prime_trial_division[of 10]
      is_prime_trial_division[of 15]
    by simp
qed

text \<open>
  \<^bold>\<open>C8.\<close> \<^verbatim>\<open>fib\<close> and \<^verbatim>\<open>is_prime\<close> are total over the integers: for every integer \<open>n\<close>,
  negative or arbitrarily large, both return a value. The \<^verbatim>\<open>for\<close> loop of \<^verbatim>\<open>fib\<close> runs
  exactly \<open>max 0 n\<close> times (one element appended each time), and the \<^verbatim>\<open>while\<close> loop of
  \<^verbatim>\<open>is_prime\<close> exits from its start \<open>d = 3\<close> for every \<open>n\<close>.
\<close>

theorem fib_is_prime_total:
  "(\<exists>xs. fib n = xs \<and> length xs = nat (max 0 n))
   \<and> (\<exists>b. is_prime n = Some b)
   \<and> (\<exists>b. is_prime_loop n 3 = Some b)"
proof -
  have "length (fib n) = nat (max 0 n)" by (simp add: length_fib max_def)
  moreover have "\<exists>b. is_prime_loop n 3 = Some b"
    using is_prime_loop_eq[of 3 n] by simp
  moreover note is_prime_returns[of n]
  ultimately show ?thesis by simp
qed


section \<open>Converting integers to text\<close>



lemma length_str_nat_le: "n < 10 ^ k \<Longrightarrow> 0 < k \<Longrightarrow> length (str_nat n) \<le> k"
proof (induction k arbitrary: n)
  case 0
  then show ?case by simp
next
  case (Suc k)
  show ?case
  proof (cases "n < 10")
    case True
    then show ?thesis by (subst str_nat.simps) simp
  next
    case False
    have div: "n div 10 < 10 ^ k" using Suc.prems(1) by (simp add: less_mult_imp_div_less mult.commute)
    have "0 < k"
    proof (rule ccontr)
      assume "\<not> 0 < k"
      then have "k = 0" by simp
      with Suc.prems(1) False show False by simp
    qed
    with div have "length (str_nat (n div 10)) \<le> k" by (rule Suc.IH)
    with False show ?thesis by (subst str_nat.simps) simp
  qed
qed



lemma length_decimal: "length (decimal i) = ndigits i + (if i < 0 then 1 else 0)"
  by (simp add: decimal_def ndigits_def abs_if)

lemma str_int_eq:
  "str_int maxd i =
     (if 0 < maxd \<and> 640 < length (decimal i) \<and> maxd < ndigits i
      then Inl ValueError else Inr (decimal i))"
  by (simp add: str_int_def Let_def length_decimal)


lemma str_int_short: "ndigits i < 640 \<Longrightarrow> str_int maxd i = Inr (decimal i)"
  by (simp add: str_int_eq length_decimal)


lemma str_int_Inr: "str_int maxd i = Inr s \<Longrightarrow> s = decimal i"
  by (simp add: str_int_eq split: if_splits)



lemma ndigits_small: "\<bar>i\<bar> < 1000 \<Longrightarrow> ndigits i \<le> 3"
proof -
  assume "\<bar>i\<bar> < 1000"
  then have "nat \<bar>i\<bar> < 10 ^ 3" by simp
  then show ?thesis unfolding ndigits_def by (rule length_str_nat_le) simp
qed


section \<open>Properties of \<^verbatim>\<open>random_payload\<close>\<close>

subsection \<open>Rounding to six places\<close>

lemma round_half_even_ge_floor: "\<lfloor>y\<rfloor> \<le> round_half_even y"
  by (simp add: round_half_even_def Let_def)

lemma round_half_even_le:
  assumes "y \<le> of_int N"
  shows "round_half_even y \<le> N"
proof (cases "y = of_int N")
  case True
  then show ?thesis by (simp add: round_half_even_def Let_def)
next
  case False
  with assms have "y < of_int N" by simp
  then have "\<lfloor>y\<rfloor> < N" by (simp add: floor_less_iff)
  then show ?thesis by (simp add: round_half_even_def Let_def)
qed

lemma six_decimals_of_int: "six_decimals (of_int m / 10 ^ 6)"
  by (simp add: six_decimals_def)

lemma py_round_6_bounds:
  assumes "0 \<le> x" "x < 1"
  shows "six_decimals (py_round x 6) \<and> 0 \<le> py_round x 6 \<and> py_round x 6 \<le> 1"
proof -
  let ?m = "round_half_even (x * 10 ^ 6)"
  have "0 \<le> x * 10 ^ 6" using assms by simp
  then have "0 \<le> \<lfloor>x * 10 ^ 6\<rfloor>" by simp
  then have lo: "0 \<le> ?m" using round_half_even_ge_floor[of "x * 10 ^ 6"] by linarith
  have "x * 10 ^ 6 \<le> of_int 1000000" using assms by simp
  then have hi: "?m \<le> 1000000" by (rule round_half_even_le)
  have "0 \<le> (of_int ?m :: rat) / 10 ^ 6" using lo by simp
  moreover have "(of_int ?m :: rat) \<le> 1000000" using hi by (metis of_int_le_iff of_int_numeral)
  then have "(of_int ?m :: rat) / 10 ^ 6 \<le> 1" by simp
  ultimately show ?thesis
    unfolding py_round_def using six_decimals_of_int[of ?m] by simp
qed

lemma py_round_6_eq_1_iff:
  assumes "0 \<le> x" "x < 1"
  shows "py_round x 6 = 1 \<longleftrightarrow> 9999995 / 10000000 \<le> x"
proof -
  let ?y = "x * 10 ^ 6"
  have ylt: "?y < 1000000" using assms by simp
  then have fl: "\<lfloor>?y\<rfloor> \<le> 999999" by (simp add: floor_less_iff)
  have "py_round x 6 = 1 \<longleftrightarrow> round_half_even ?y = 1000000"
    by (simp add: py_round_def)
  also have "\<dots> \<longleftrightarrow> 1999999 / 2 \<le> ?y"
  proof
    assume r: "round_half_even ?y = 1000000"
    have "round_half_even ?y = \<lfloor>?y\<rfloor> \<or> round_half_even ?y = \<lfloor>?y\<rfloor> + 1"
      by (simp add: round_half_even_def Let_def)
    with r fl have f: "\<lfloor>?y\<rfloor> = 999999" by linarith
    with r have "\<not> (?y - of_int \<lfloor>?y\<rfloor> < 1 / 2)"
      by (simp add: round_half_even_def Let_def split: if_splits)
    with f show "1999999 / 2 \<le> ?y" by simp
  next
    assume a: "1999999 / 2 \<le> ?y"
    then have "(of_int 999999 :: rat) \<le> ?y" by simp
    then have "999999 \<le> \<lfloor>?y\<rfloor>" by (simp only: le_floor_iff)
    with fl have f: "\<lfloor>?y\<rfloor> = 999999" by linarith
    from a have "\<not> (?y - 999999 < 1 / 2)" by simp
    with f show "round_half_even ?y = 1000000"
      by (simp add: round_half_even_def Let_def)
  qed
  also have "\<dots> \<longleftrightarrow> 9999995 / 10000000 \<le> x" by (simp add: mult.commute)
  finally show ?thesis .
qed



subsection \<open>The shape of the payload\<close>

text \<open>
  Sorting the three keys puts \<^verbatim>\<open>choice\<close> first and \<^verbatim>\<open>int\<close> last, so the bytes hashed are
  the canonical serialization of the specification. \<^verbatim>\<open>random_payload\<close> raises only if the
  integer drawn cannot be converted to text, which a result of \<^verbatim>\<open>randint(1, 100)\<close> always
  can.
\<close>

lemma sample_library_contract: "library_contract sample_library"
  by (simp add: library_contract_def sample_library_def hex_digit_def frac_lt_1 list_all_iff)

lemma json_canonical:
  "json_dumps lib [(''int'', PyInt i), (''float'', PyFloat f), (''choice'', PyStr c)] True None
     = (case str_int (int_max_str_digits lib) i of
          Inl e \<Rightarrow> Inl e
        | Inr s \<Rightarrow> Inr (canonical_serialization lib i f c))"
  by (simp add: json_dumps_def canonical_serialization_def json_value_def str_int_eq)

lemma payload_form:
  "random_payload lib h sd =
    (let rng0 = (case sd of None \<Rightarrow> Random_unseeded h | Some s \<Rightarrow> Random_seeded lib s);
         i = fst (randint lib rng0 1 100);
         rng1 = snd (randint lib rng0 1 100);
         f = py_round (fst (rng_random lib rng1)) 6;
         rng2 = snd (rng_random lib rng1);
         c = fst (choice lib rng2 [''apple'', ''banana'', ''cherry'', ''durian''])
     in case str_int (int_max_str_digits lib) i of
          Inl e \<Rightarrow> Inl e
        | Inr s \<Rightarrow>
            Inr [(''int'', PyInt i), (''float'', PyFloat f), (''choice'', PyStr c),
                 (''sha256'',
                  PyStr (take 16 (sha256_hexdigest lib (canonical_serialization lib i f c))))])"
  by (auto simp: random_payload_def json_canonical Let_def split: prod.splits sum.splits)

lemma payload_int_text:
  "random_payload lib h sd =
     Inr [(''int'', PyInt i), (''float'', PyFloat f), (''choice'', PyStr c), (''sha256'', PyStr s)]
   \<Longrightarrow> str_int (int_max_str_digits lib) i = Inr (decimal i)"
  by (auto simp: payload_form[of lib h sd] Let_def str_int_eq split: sum.splits if_splits)

lemma payload_returned_shape:
  assumes "random_payload lib h sd = Inr p"
  shows "\<exists>i f c. p = [(''int'', PyInt i), (''float'', PyFloat f), (''choice'', PyStr c),
      (''sha256'', PyStr (take 16 (sha256_hexdigest lib (canonical_serialization lib i f c))))]"
  using assms by (auto simp: payload_form[of lib h sd] Let_def split: sum.splits)

lemma payload_fields_built:
  assumes "library_contract lib"
  shows "\<exists>p. random_payload lib h sd = Inr p \<and> payload_fields False p"
proof -
  define rng0 where "rng0 = (case sd of None \<Rightarrow> Random_unseeded h | Some s \<Rightarrow> Random_seeded lib s)"
  define rng1 where "rng1 = snd (randint lib rng0 1 100)"
  define rng2 where "rng2 = snd (rng_random lib rng1)"
  define i where "i = fst (randint lib rng0 1 100)"
  define x where "x = fst (rng_random lib rng1)"
  define c where "c = fst (choice lib rng2 [''apple'', ''banana'', ''cherry'', ''durian''])"
  define s where "s = take 16 (sha256_hexdigest lib (canonical_serialization lib i (py_round x 6) c))"
  have i: "1 \<le> i \<and> i \<le> 100"
    using assms unfolding library_contract_def i_def by simp
  then have "ndigits i \<le> 3" by (intro ndigits_small) simp
  then have conv: "str_int (int_max_str_digits lib) i = Inr (decimal i)"
    by (intro str_int_short) simp
  have p: "random_payload lib h sd =
      Inr [(''int'', PyInt i), (''float'', PyFloat (py_round x 6)), (''choice'', PyStr c),
       (''sha256'', PyStr s)]"
    using conv
    unfolding payload_form[of lib h sd] Let_def rng0_def rng1_def rng2_def i_def x_def c_def s_def
    by simp
  have x: "0 \<le> x \<and> x < 1"
    using assms unfolding library_contract_def x_def by simp
  have f: "six_decimals (py_round x 6) \<and> 0 \<le> py_round x 6 \<and> py_round x 6 \<le> 1"
    using x by (simp add: py_round_6_bounds)
  have "[''apple'', ''banana'', ''cherry'', ''durian''] \<noteq> ([] :: string list)" by simp
  then have c: "c \<in> set [''apple'', ''banana'', ''cherry'', ''durian'']"
    using assms unfolding library_contract_def c_def by blast
  have len: "length s = 16"
    using assms unfolding library_contract_def s_def by simp
  have "list_all hex_digit (sha256_hexdigest lib bs)" for bs
    using assms unfolding library_contract_def by simp
  then have hex: "list_all hex_digit s"
    unfolding s_def list_all_iff by (meson in_set_takeD)
  have "payload_fields False
      [(''int'', PyInt i), (''float'', PyFloat (py_round x 6)), (''choice'', PyStr c),
       (''sha256'', PyStr s)]"
    unfolding payload_fields_def using i f c len hex by simp
  with p show ?thesis by simp
qed


lemma sample_payload_42:
  "random_payload sample_library sample_host (Some 42) =
     Inr [(''int'', PyInt 1), (''float'', PyFloat 0), (''choice'', PyStr ''apple''),
          (''sha256'', PyStr ''0000000000000000'')]"
  by code_simp

text \<open>
  \<^bold>\<open>C1.\<close> For every integer seed \<open>s\<close>, two calls \<^verbatim>\<open>random_payload(s)\<close> return identical
  payloads: the same \<^verbatim>\<open>int\<close>, \<^verbatim>\<open>float\<close>, \<^verbatim>\<open>choice\<close> and 16-character checksum. The two
  calls may happen on any two hosts (entropy, clock, platform, working directory): with a
  seed the payload depends on the seed alone.
\<close>

theorem random_payload_seed_deterministic:
  "random_payload lib h1 (Some s) = random_payload lib h2 (Some s)"
  by (simp add: random_payload_def)

text \<open>
  \<^bold>\<open>C2\<close> as the claim states it: for every payload \<^verbatim>\<open>random_payload\<close> returns, with any seed
  or none, \<^verbatim>\<open>int\<close> is an integer in \<open>[1, 100]\<close>, \<^verbatim>\<open>float\<close> is a decimal of six fractional
  digits in \<open>[0, 1)\<close>, \<^verbatim>\<open>choice\<close> is one of the four categories and the checksum is 16
  hexadecimal characters. This fails: a draw of \<open>1 - 2^-53\<close>, the largest float below one,
  is rounded to \<open>1.0\<close>.
\<close>

theorem payload_float_half_open_counterexample:
  "library_contract sample_library
   \<and> fst (rng_random sample_library (Random_seeded sample_library 9007199254740991)) < 1
   \<and> random_payload sample_library sample_host (Some 9007199254740991)
       = Inr [(''int'', PyInt 1), (''float'', PyFloat 1), (''choice'', PyStr ''apple''),
              (''sha256'', PyStr ''0000000000000000'')]
   \<and> \<not> payload_fields True
         [(''int'', PyInt 1), (''float'', PyFloat 1), (''choice'', PyStr ''apple''),
          (''sha256'', PyStr ''0000000000000000'')]"
proof -
  have p: "random_payload sample_library sample_host (Some 9007199254740991) =
    Inr [(''int'', PyInt 1), (''float'', PyFloat 1), (''choice'', PyStr ''apple''),
     (''sha256'', PyStr ''0000000000000000'')]"
    by code_simp
  have d: "fst (rng_random sample_library (Random_seeded sample_library 9007199254740991)) < 1"
    by (simp add: sample_library_def frac_lt_1)
  show ?thesis
    unfolding p using d by (simp add: sample_library_contract payload_fields_def)
qed

text \<open>
  \<^bold>\<open>C2\<close> as amended: when the library keeps its documented contract, \<^verbatim>\<open>random_payload\<close>,
  with any seed or none, returns a payload with the four keys \<^verbatim>\<open>int\<close>, \<^verbatim>\<open>float\<close>,
  \<^verbatim>\<open>choice\<close>, \<^verbatim>\<open>sha256\<close> in this order; \<^verbatim>\<open>int\<close> is an integer in \<open>[1, 100]\<close>, \<^verbatim>\<open>float\<close> is a
  decimal of six fractional digits in the closed interval \<open>[0, 1]\<close>, \<^verbatim>\<open>choice\<close> is one of the
  four categories and the checksum is 16 hexadecimal characters.
\<close>

theorem payload_fields_in_range:
  "library_contract lib \<Longrightarrow>
   \<exists>p. random_payload lib h sd = Inr p \<and> payload_fields False p"
  by (rule payload_fields_built)

theorem payload_fields_in_range_witness:
  "library_contract sample_library
   \<and> (\<exists>p. random_payload sample_library sample_host (Some 42) = Inr p
          \<and> payload_fields False p)
   \<and> (\<exists>p. random_payload sample_library sample_host None = Inr p
          \<and> payload_fields False p)"
  using payload_fields_in_range[of sample_library sample_host "Some 42"]
    payload_fields_in_range[of sample_library sample_host None]
    sample_library_contract
  by simp

text \<open>
  \<^bold>\<open>C3.\<close> For every payload \<^verbatim>\<open>random_payload\<close> returns, recomputing SHA-256 over the
  canonical serialization (keys sorted, UTF-8) of its \<^verbatim>\<open>int\<close>, \<^verbatim>\<open>float\<close> and \<^verbatim>\<open>choice\<close>
  fields and keeping the first 16 characters of the hex digest gives exactly the stored
  \<^verbatim>\<open>sha256\<close> field: the checksum is a function of the three fields (and of nothing else of
  the run: not the seed, the generator's state or the host). And a payload is returned
  whenever the library keeps its contract.
\<close>

theorem checksum_round_trip:
  "(random_payload lib h sd = Inr p \<longrightarrow>
      map_of p ''sha256'' = map_option PyStr (recomputed_checksum lib p)
      \<and> recomputed_checksum lib p \<noteq> None)
   \<and> (library_contract lib \<longrightarrow> (\<exists>q. random_payload lib h sd = Inr q))"
proof -
  have "map_of p ''sha256'' = map_option PyStr (recomputed_checksum lib p)
      \<and> recomputed_checksum lib p \<noteq> None" if "random_payload lib h sd = Inr p"
    using payload_returned_shape[OF that] by (auto simp: recomputed_checksum_def)
  moreover have "\<exists>q. random_payload lib h sd = Inr q" if "library_contract lib"
    using payload_fields_built[OF that, of h sd] by blast
  ultimately show ?thesis by blast
qed

theorem checksum_round_trip_witness:
  "random_payload sample_library sample_host (Some 42) =
     Inr [(''int'', PyInt 1), (''float'', PyFloat 0), (''choice'', PyStr ''apple''),
          (''sha256'', PyStr ''0000000000000000'')]
   \<and> map_of [(''int'', PyInt 1), (''float'', PyFloat 0), (''choice'', PyStr ''apple''),
          (''sha256'', PyStr ''0000000000000000'')] ''sha256''
       = map_option PyStr (recomputed_checksum sample_library
           [(''int'', PyInt 1), (''float'', PyFloat 0), (''choice'', PyStr ''apple''),
            (''sha256'', PyStr ''0000000000000000'')])
   \<and> library_contract sample_library
   \<and> (\<exists>q. random_payload sample_library sample_host (Some 42) = Inr q)"
  using checksum_round_trip[of sample_library sample_host "Some 42"
      "[(''int'', PyInt 1), (''float'', PyFloat 0), (''choice'', PyStr ''apple''),
          (''sha256'', PyStr ''0000000000000000'')]"]
    sample_payload_42 sample_library_contract
  by simp


section \<open>Properties of \<^verbatim>\<open>main\<close>\<close>

lemma filter_is_prime_eq:
  "filter_is_prime xs = Some (filter (\<lambda>x. is_prime x = Some True) xs)"
proof (induction xs)
  case Nil
  then show ?case by simp
next
  case (Cons n ns)
  obtain b where b: "is_prime n = Some b" using is_prime_returns[of n] by (elim exE)
  show ?case by (simp add: Cons.IH b)
qed

lemma sequence_analysis_eq:
  "sequence_analysis n =
     Some (fib n, sum_list (fib n), filter (\<lambda>x. is_prime x = Some True) (fib n))"
  by (simp add: sequence_analysis_def filter_is_prime_eq Let_def)

lemma sequence_analysis_5: "sequence_analysis 5 = Some ([0, 1, 1, 2, 3], 7, [2, 3])"
proof -
  have "fib 5 = [0, 1, 1, 2, 3]" by (simp add: fib_def eval_nat_numeral)
  then show ?thesis
    by (simp add: sequence_analysis_def is_prime_def is_prime_loop.simps)
qed

lemma payload_text_returns:
  assumes "random_payload lib h sd = Inr p"
  shows "\<exists>t. json_dumps lib p False (Some 2) = Inr t"
proof -
  obtain i f c where p: "p = [(''int'', PyInt i), (''float'', PyFloat f), (''choice'', PyStr c),
      (''sha256'', PyStr (take 16 (sha256_hexdigest lib (canonical_serialization lib i f c))))]"
    using payload_returned_shape[OF assms] by (elim exE)
  have "str_int (int_max_str_digits lib) i = Inr (decimal i)"
    using assms unfolding p by (rule payload_int_text)
  then show ?thesis
    unfolding p by (simp add: json_dumps_def json_value_def)
qed



lemma main_returns_when_converted:
  assumes "random_payload lib h (seed a) = Inr p"
    and "str_int (int_max_str_digits lib) (count a) = Inr ct"
    and "str_ints (int_max_str_digits lib) (fib (count a)) = Inr ss"
    and "str_int (int_max_str_digits lib) (sum_list (fib (count a))) = Inr st"
    and "str_ints (int_max_str_digits lib)
           (filter (\<lambda>x. is_prime x = Some True) (fib (count a))) = Inr ps"
  shows "\<exists>out. main lib h a = Some (Inr (out, 0)) \<and> length out = 12
      \<and> out ! 9 = [CHR 0x0A] @ ''Fibonacci('' @ ct @ '') = '' @ ''['' @ join '', '' ss @ '']''
      \<and> out ! 10 = ''Sum = '' @ st @ '' | Primes in sequence = '' @ ''['' @ join '', '' ps @ '']''"
proof -
  obtain t where t: "json_dumps lib p False (Some 2) = Inr t"
    using payload_text_returns[OF assms(1)] by (elim exE)
  show ?thesis
    using assms t
    by (simp add: main_def Let_def sequence_analysis_eq str_int_list_def)
qed
















text \<open>
  \<^bold>\<open>C6.\<close> With \<^verbatim>\<open>count = 5\<close> (as in \<^verbatim>\<open>--seed 42 --count 5\<close>) the Sequence Analyzer produces
  the sequence \<open>[0, 1, 1, 2, 3]\<close>, the sum \<open>7\<close> and the primes \<open>[2, 3]\<close>; \<open>0\<close> and \<open>1\<close> are not
  prime. For every count the primes are the elements of the sequence that \<^verbatim>\<open>is_prime\<close>
  accepts, in the order of the sequence and as often as they occur there. And once the
  payload is built, \<^verbatim>\<open>main\<close> with \<^verbatim>\<open>count = 5\<close> returns \<open>0\<close> and has printed the three values
  in its tenth and eleventh lines, whatever the name, the seed, the host and the digit
  limit.
\<close>

theorem sequence_analysis_count_5:
  "sequence_analysis 5 = Some ([0, 1, 1, 2, 3], 7, [2, 3])
   \<and> is_prime 0 = Some False \<and> is_prime 1 = Some False
   \<and> sequence_analysis n =
       Some (fib n, sum_list (fib n), filter (\<lambda>x. is_prime x = Some True) (fib n))
   \<and> ((\<exists>p. random_payload lib h sd = Inr p) \<longrightarrow>
        (\<exists>out. main lib h \<lparr>name = nm, seed = sd, count = 5\<rparr> = Some (Inr (out, 0))
           \<and> out ! 9 = [CHR 0x0A] @ ''Fibonacci(5) = [0, 1, 1, 2, 3]''
           \<and> out ! 10 = ''Sum = 7 | Primes in sequence = [2, 3]''))"
proof -
  let ?a = "\<lparr>name = nm, seed = sd, count = 5\<rparr>"
  let ?m = "int_max_str_digits lib"
  have f5: "fib 5 = [0, 1, 1, 2, 3]" by (simp add: fib_def eval_nat_numeral)
  have pr: "filter (\<lambda>x. is_prime x = Some True) (fib 5) = [2, 3]"
    by (simp add: f5 is_prime_def is_prime_loop.simps)
  have d: "str_int ?m i = Inr (decimal i)" if "0 \<le> i" "i < 10" for i
  proof (rule str_int_short)
    have "nat \<bar>i\<bar> < 10" using that by simp
    then show "ndigits i < 640" by (simp add: ndigits_def str_nat.simps)
  qed
  have 1: "str_int ?m (count ?a) = Inr ''5''"
    using d[of 5] by (simp add: decimal_def str_nat.simps)
  have 2: "str_ints ?m (fib (count ?a)) = Inr [''0'', ''1'', ''1'', ''2'', ''3'']"
    using d[of 0] d[of 1] d[of 2] d[of 3] by (simp add: f5 decimal_def str_nat.simps)
  have 3: "str_int ?m (sum_list (fib (count ?a))) = Inr ''7''"
    using d[of 7] by (simp add: f5 decimal_def str_nat.simps)
  have 4: "str_ints ?m (filter (\<lambda>x. is_prime x = Some True) (fib (count ?a)))
      = Inr [''2'', ''3'']"
    using d[of 2] d[of 3] pr by (simp add: decimal_def str_nat.simps)
  have "\<exists>out. main lib h ?a = Some (Inr (out, 0))
           \<and> out ! 9 = [CHR 0x0A] @ ''Fibonacci(5) = [0, 1, 1, 2, 3]''
           \<and> out ! 10 = ''Sum = 7 | Primes in sequence = [2, 3]''"
    if "random_payload lib h sd = Inr p" for p
  proof -
    have p: "random_payload lib h (seed ?a) = Inr p" using that by simp
    show ?thesis
      using main_returns_when_converted[OF p 1 2 3 4] by auto
  qed
  moreover have "is_prime 0 = Some False \<and> is_prime 1 = Some False"
    by (simp add: is_prime_def)
  moreover note sequence_analysis_5 sequence_analysis_eq[of n]
  ultimately show ?thesis by blast
qed

theorem sequence_analysis_count_5_witness:
  "(\<exists>p. random_payload sample_library sample_host (Some 42) = Inr p)
   \<and> (\<exists>out. main sample_library sample_host \<lparr>name = ''World'', seed = Some 42, count = 5\<rparr>
              = Some (Inr (out, 0))
          \<and> out ! 9 = [CHR 0x0A] @ ''Fibonacci(5) = [0, 1, 1, 2, 3]''
          \<and> out ! 10 = ''Sum = 7 | Primes in sequence = [2, 3]'')"
  using sequence_analysis_count_5[of 5 sample_library sample_host "Some 42" "''World''"]
    sample_payload_42
  by simp




end
